theory Spec2Isabelle
  imports Complex_Main
begin

section \<open>Values shared by the schema, the adapters and the router\<close>

text \<open>
  Python floats (temperature, latency, retry delay) are only stored and passed on by the
  code modelled here; no arithmetic is done on them. They are represented by rationals.
\<close>

type_synonym py_float = rat

text \<open>
  What \<^verbatim>\<open>json.loads\<close> can return: \<open>JNull\<close> is Python's \<^verbatim>\<open>None\<close>, an object is a
  dict in insertion order.
\<close>

datatype json =
    JNull
  | JBool bool
  | JInt int
  | JFloat py_float
  | JStr string
  | JArr "json list"
  | JObj "(string \<times> json) list"

text \<open>
  Exceptions as values. \<open>ValidationError\<close> is pydantic's, raised by a model constructor;
  \<open>IndexError\<close> is the list index out of range, \<open>AttributeError\<close> the call of a
  method that the object does not have. \<open>JSONDecodeError\<close> is what \<^verbatim>\<open>json.loads\<close>
  raises on a text that is not JSON; \<open>TypeError\<close> is what it raises on \<^verbatim>\<open>None\<close>, and
  \<open>RecursionError\<close> what it raises on a text nested too deeply. \<open>Failure msg\<close> is any
  other \<^verbatim>\<open>Exception\<close>, \<open>msg\<close> being what \<^verbatim>\<open>str(e)\<close> gives.
\<close>

datatype exn =
    ValidationError string
  | IndexError
  | AttributeError
  | JSONDecodeError
  | TypeError
  | RecursionError
  | Failure string

fun str_exn :: "exn \<Rightarrow> string" where
  "str_exn (ValidationError m) = m"
| "str_exn IndexError = ''list index out of range''"
| "str_exn AttributeError = ''object has no attribute''"
| "str_exn JSONDecodeError = ''Expecting value''"
| "str_exn TypeError = ''the JSON object must be str, bytes or bytearray, not NoneType''"
| "str_exn RecursionError = ''maximum recursion depth exceeded''"
| "str_exn (Failure m) = m"

section \<open>Schema (schema/fusion_action.py, schema/mcp_command.py, schema/llm_response.py)\<close>

text \<open>
  The pydantic models as records. A field name used by several models carries the model's
  initials, since record fields share one name space. The timestamp of the metadata
  (\<^verbatim>\<open>datetime.now\<close>) is left out: nothing reads it.
\<close>

record FusionAction =
  fa_action :: string
  fa_params :: "(string \<times> json) list"
  explanation :: "string option"
  safety_checks :: "string list"
  dependencies :: "string list"

record ActionSequence =
  actions :: "FusionAction list"
  total_steps :: int
  estimated_time_seconds :: "py_float option"

text \<open>The provider literal of \<^verbatim>\<open>ModelParams\<close> and of \<^verbatim>\<open>LLMResponseMetadata\<close>.\<close>

datatype provider_id = Ollama | Openai | Gemini | Claude

fun provider_name :: "provider_id \<Rightarrow> string" where
  "provider_name Ollama = ''ollama''"
| "provider_name Openai = ''openai''"
| "provider_name Gemini = ''gemini''"
| "provider_name Claude = ''claude''"

definition provider_literal :: "string list" where
  "provider_literal = [''ollama'', ''openai'', ''gemini'', ''claude'']"

record ModelParams =
  mp_provider :: provider_id
  mp_model :: string
  prompt :: string
  mp_temperature :: py_float
  max_tokens :: "int option"

record DesignContext =
  active_component :: string
  units :: string
  design_state :: string
  active_sketch :: "string option"
  material :: "string option"
  parameters :: "(string \<times> json) list"
  geometry_count :: "(string \<times> int) list"

datatype command_kind =
    AskModel | SuggestAction | ContextUpdate | ExecuteAction | ValidateAction
  | ListModels | HealthCheck

fun command_name :: "command_kind \<Rightarrow> string" where
  "command_name AskModel = ''ask_model''"
| "command_name SuggestAction = ''suggest_action''"
| "command_name ContextUpdate = ''context_update''"
| "command_name ExecuteAction = ''execute_action''"
| "command_name ValidateAction = ''validate_action''"
| "command_name ListModels = ''list_models''"
| "command_name HealthCheck = ''health_check''"

record MCPCommand =
  command :: command_kind
  cmd_params :: "ModelParams option"
  cmd_context :: "DesignContext option"
  action_data :: "(string \<times> json) list option"
  cmd_metadata :: "(string \<times> json) list"

record LLMResponseMetadata =
  md_provider :: string
  md_model :: string
  tokens_used :: "int option"
  latency_ms :: "py_float option"
  md_temperature :: "py_float option"

record LLMError =
  err_type :: string
  err_message :: string
  err_provider :: string
  retry_count :: int
  recoverable :: bool

record ClarifyingQuestion =
  question :: string
  cq_context :: string
  suggestions :: "string list"

record LLMResponse =
  success :: bool
  resp_provider :: string
  resp_model :: string
  raw_output :: string
  resp_action :: "FusionAction option"
  action_sequence :: "ActionSequence option"
  clarifying_questions :: "ClarifyingQuestion list"
  reasoning :: "string option"
  resp_metadata :: LLMResponseMetadata
  resp_error :: "LLMError option"

datatype response_status = StSuccess | StError | StClarificationNeeded | StPartial

record MCPResponse =
  status :: response_status
  llm_response :: "LLMResponse option"
  message :: string
  actions_to_execute :: "FusionAction list"
  warnings :: "string list"

text \<open>
  \<^verbatim>\<open>LLMResponseMetadata(provider=..., model=..., ...)\<close>: pydantic checks the provider
  against the literal and raises when it is not one of the four names. The other
  constructors used by the router get values of their declared types and cannot fail.
\<close>

definition new_LLMResponseMetadata ::
  "string \<Rightarrow> string \<Rightarrow> int option \<Rightarrow> py_float option \<Rightarrow> py_float option
     \<Rightarrow> exn + LLMResponseMetadata" where
  "new_LLMResponseMetadata provider model tokens latency temperature =
     (if provider \<in> set provider_literal then
        Inr \<lparr>md_provider = provider, md_model = model, tokens_used = tokens,
             latency_ms = latency, md_temperature = temperature\<rparr>
      else Inl (ValidationError ''LLMResponseMetadata.provider''))"

section \<open>The world outside the repository\<close>

text \<open>
  The router and the adapters are verified for every behaviour of what they call but do
  not define: the providers' network services, \<^verbatim>\<open>json.loads\<close>, Python's \<^verbatim>\<open>str\<close> of
  a dict, and pydantic's validation of a payload against \<^verbatim>\<open>FusionAction\<close> and
  \<^verbatim>\<open>ActionSequence\<close>. A service answers as a function of everything that happened
  before (the history of the router's calls and sleeps) and of the request, so that it may
  fail at one attempt and answer at the next.
\<close>

record gen_request =
  req_model :: string
  req_prompt :: string
  req_system_prompt :: "string option"
  req_temperature :: py_float
  req_max_tokens :: "int option"

datatype event =
    EvGenerate string gen_request
  | EvSleep py_float
  | EvListModels string

type_synonym history = "event list"

text \<open>
  What a provider sends back: the text of the reply, \<open>None\<close> when the reply carries no
  text (\<^verbatim>\<open>message.content\<close> of an OpenAI completion may be \<^verbatim>\<open>None\<close>), the token
  count if reported, and the time the call took. \<^verbatim>\<open>json.loads\<close> either returns a
  value or raises.
\<close>

record raw_reply =
  reply_output :: "string option"
  reply_tokens :: "int option"
  reply_latency :: py_float

type_synonym transport = "history \<Rightarrow> gen_request \<Rightarrow> exn + raw_reply"

type_synonym listing = "history \<Rightarrow> exn + string list"

record world =
  json_loads :: "string \<Rightarrow> exn + json"
  str_of_models :: "(string \<times> string list) list \<Rightarrow> string"
  validate_FusionAction :: "(string \<times> json) list \<Rightarrow> exn + FusionAction"
  validate_ActionSequence :: "(string \<times> json) list \<Rightarrow> exn + ActionSequence"
  ollama_rest :: transport
  ollama_cli :: transport
  openai_chat :: transport
  gemini_generate :: transport
  claude_messages :: transport
  ollama_tags :: listing
  openai_models :: listing
  gemini_models :: listing

section \<open>Provider adapters (llm\_clients)\<close>

subsection \<open>Payload extraction\<close>

text \<open>\<^verbatim>\<open>str.find\<close> and \<^verbatim>\<open>str.rfind\<close> of one character: the index, or -1.\<close>

fun py_find :: "char \<Rightarrow> string \<Rightarrow> int" where
  "py_find c [] = -1"
| "py_find c (x # xs) =
     (if x = c then 0 else (let i = py_find c xs in if i = -1 then -1 else i + 1))"

definition py_rfind :: "char \<Rightarrow> string \<Rightarrow> int" where
  "py_rfind c text =
     (let i = py_find c (rev text) in if i = -1 then -1 else int (length text) - 1 - i)"

text \<open>\<^verbatim>\<open>text[start:stop]\<close> for indices that are not negative.\<close>

definition py_slice :: "string \<Rightarrow> int \<Rightarrow> int \<Rightarrow> string" where
  "py_slice text start stop = take (nat stop - nat start) (drop (nat start) text)"

text \<open>
  \<^verbatim>\<open>_parse_json\<close> of the four clients. \<open>loads\<close> is \<^verbatim>\<open>json.loads\<close>; the result
  \<open>Inr JNull\<close> is the return of Python's \<^verbatim>\<open>None\<close>. Each \<^verbatim>\<open>try\<close> catches
  \<^verbatim>\<open>json.JSONDecodeError\<close> only: any other exception of \<^verbatim>\<open>json.loads\<close> leaves the
  function. On the text \<^verbatim>\<open>None\<close> the first operation raises, \<^verbatim>\<open>json.loads\<close> its
  \<^verbatim>\<open>TypeError\<close> and \<^verbatim>\<open>text.find\<close> its \<^verbatim>\<open>AttributeError\<close>. OpenAI, Gemini and
  Claude parse the whole text first (openai\_client.py, lines 100-128); Ollama looks for
  the braces first (ollama\_client.py, lines 151-176).
\<close>

definition OpenAIClient_parse_json ::
  "(string \<Rightarrow> exn + json) \<Rightarrow> string option \<Rightarrow> exn + json" where
  "OpenAIClient_parse_json loads text_opt =
     (case text_opt of
        None \<Rightarrow> Inl TypeError
      | Some text \<Rightarrow>
          (case loads text of
             Inr v \<Rightarrow> Inr v
           | Inl e \<Rightarrow>
               if e \<noteq> JSONDecodeError then Inl e
               else
                 (let start = py_find CHR ''{'' text; stop = py_rfind CHR ''}'' text in
                  if start \<noteq> -1 \<and> stop \<noteq> -1 then
                    (case loads (py_slice text start (stop + 1)) of
                       Inr v \<Rightarrow> Inr v
                     | Inl e' \<Rightarrow> if e' \<noteq> JSONDecodeError then Inl e' else Inr JNull)
                  else Inr JNull)))"

definition GeminiClient_parse_json ::
  "(string \<Rightarrow> exn + json) \<Rightarrow> string option \<Rightarrow> exn + json" where
  "GeminiClient_parse_json loads text_opt =
     (case text_opt of
        None \<Rightarrow> Inl TypeError
      | Some text \<Rightarrow>
          (case loads text of
             Inr v \<Rightarrow> Inr v
           | Inl e \<Rightarrow>
               if e \<noteq> JSONDecodeError then Inl e
               else
                 (let start = py_find CHR ''{'' text; stop = py_rfind CHR ''}'' text in
                  if start \<noteq> -1 \<and> stop \<noteq> -1 then
                    (case loads (py_slice text start (stop + 1)) of
                       Inr v \<Rightarrow> Inr v
                     | Inl e' \<Rightarrow> if e' \<noteq> JSONDecodeError then Inl e' else Inr JNull)
                  else Inr JNull)))"

definition ClaudeClient_parse_json ::
  "(string \<Rightarrow> exn + json) \<Rightarrow> string option \<Rightarrow> exn + json" where
  "ClaudeClient_parse_json loads text_opt =
     (case text_opt of
        None \<Rightarrow> Inl TypeError
      | Some text \<Rightarrow>
          (case loads text of
             Inr v \<Rightarrow> Inr v
           | Inl e \<Rightarrow>
               if e \<noteq> JSONDecodeError then Inl e
               else
                 (let start = py_find CHR ''{'' text; stop = py_rfind CHR ''}'' text in
                  if start \<noteq> -1 \<and> stop \<noteq> -1 then
                    (case loads (py_slice text start (stop + 1)) of
                       Inr v \<Rightarrow> Inr v
                     | Inl e' \<Rightarrow> if e' \<noteq> JSONDecodeError then Inl e' else Inr JNull)
                  else Inr JNull)))"

text \<open>
  In the Ollama client, \<open>whole\<close> is the second \<^verbatim>\<open>try\<close>, reached when the text lacks a
  brace or the brace substring raises \<^verbatim>\<open>JSONDecodeError\<close>.
\<close>

definition OllamaClient_parse_json ::
  "(string \<Rightarrow> exn + json) \<Rightarrow> string option \<Rightarrow> exn + json" where
  "OllamaClient_parse_json loads text_opt =
     (case text_opt of
        None \<Rightarrow> Inl AttributeError
      | Some text \<Rightarrow>
          (let start = py_find CHR ''{'' text; stop = py_rfind CHR ''}'' text;
               whole = (case loads text of
                          Inr v \<Rightarrow> Inr v
                        | Inl e \<Rightarrow> if e \<noteq> JSONDecodeError then Inl e else Inr JNull)
           in if start \<noteq> -1 \<and> stop \<noteq> -1 then
                (case loads (py_slice text start (stop + 1)) of
                   Inr v \<Rightarrow> Inr v
                 | Inl e \<Rightarrow> if e \<noteq> JSONDecodeError then Inl e else whole)
              else whole))"

subsection \<open>The clients\<close>

text \<open>
  The dict that \<^verbatim>\<open>generate\<close> returns; its output is the text of the reply as it
  came.
\<close>

record gen_result =
  gr_provider :: string
  gr_model :: string
  gr_output :: "string option"
  gr_json :: json
  gr_tokens_used :: "int option"
  gr_latency_ms :: "py_float option"

record client =
  generate :: "history \<Rightarrow> gen_request \<Rightarrow> exn + gen_result"
  list_models :: "history \<Rightarrow> exn + string list"

text \<open>
  \<^verbatim>\<open>OllamaClient._generate_rest\<close> and \<^verbatim>\<open>_generate_cli\<close> (ollama\_client.py, lines
  67-149): the call, then the result dict with the parsed payload; an exception of the
  call or of \<^verbatim>\<open>_parse_json\<close> leaves the method. The command-line path reports no
  token count.
\<close>

definition OllamaClient_generate_rest :: "world \<Rightarrow> history \<Rightarrow> gen_request \<Rightarrow> exn + gen_result" where
  "OllamaClient_generate_rest w h req =
     (case ollama_rest w h req of
        Inl e \<Rightarrow> Inl e
      | Inr rep \<Rightarrow>
          (case OllamaClient_parse_json (json_loads w) (reply_output rep) of
             Inl e \<Rightarrow> Inl e
           | Inr payload \<Rightarrow>
               Inr \<lparr>gr_provider = ''ollama'', gr_model = req_model req,
                    gr_output = reply_output rep, gr_json = payload,
                    gr_tokens_used = reply_tokens rep,
                    gr_latency_ms = Some (reply_latency rep)\<rparr>))"

definition OllamaClient_generate_cli :: "world \<Rightarrow> history \<Rightarrow> gen_request \<Rightarrow> exn + gen_result" where
  "OllamaClient_generate_cli w h req =
     (case ollama_cli w h req of
        Inl e \<Rightarrow> Inl e
      | Inr rep \<Rightarrow>
          (case OllamaClient_parse_json (json_loads w) (reply_output rep) of
             Inl e \<Rightarrow> Inl e
           | Inr payload \<Rightarrow>
               Inr \<lparr>gr_provider = ''ollama'', gr_model = req_model req,
                    gr_output = reply_output rep, gr_json = payload,
                    gr_tokens_used = None,
                    gr_latency_ms = Some (reply_latency rep)\<rparr>))"

text \<open>
  \<^verbatim>\<open>OllamaClient.generate\<close> (lines 28-65): the REST path, and the command line when
  the REST path raises. \<^verbatim>\<open>list_models\<close> of the Ollama, OpenAI and Gemini clients
  catches every exception and answers the empty list. \<^verbatim>\<open>ClaudeClient\<close> defines no
  \<^verbatim>\<open>list_models\<close>: calling it raises \<^verbatim>\<open>AttributeError\<close>.
\<close>

definition OllamaClient :: "world \<Rightarrow> client" where
  "OllamaClient w =
     \<lparr>generate = (\<lambda>h req.
        case OllamaClient_generate_rest w h req of
          Inr result \<Rightarrow> Inr result
        | Inl rest_error \<Rightarrow> OllamaClient_generate_cli w h req),
      list_models = (\<lambda>h.
        case ollama_tags w h of Inr ms \<Rightarrow> Inr ms | Inl e \<Rightarrow> Inr [])\<rparr>"

text \<open>
  \<^verbatim>\<open>generate\<close> of the OpenAI, Gemini and Claude clients: the call and the result
  dict inside one \<^verbatim>\<open>try\<close> whose handler logs and raises again.
\<close>

definition OpenAIClient :: "world \<Rightarrow> client" where
  "OpenAIClient w =
     \<lparr>generate = (\<lambda>h req.
        case openai_chat w h req of
          Inl e \<Rightarrow> Inl e
        | Inr rep \<Rightarrow>
            (case OpenAIClient_parse_json (json_loads w) (reply_output rep) of
               Inl e \<Rightarrow> Inl e
             | Inr payload \<Rightarrow>
                 Inr \<lparr>gr_provider = ''openai'', gr_model = req_model req,
                      gr_output = reply_output rep, gr_json = payload,
                      gr_tokens_used = reply_tokens rep,
                      gr_latency_ms = Some (reply_latency rep)\<rparr>)),
      list_models = (\<lambda>h.
        case openai_models w h of Inr ms \<Rightarrow> Inr ms | Inl e \<Rightarrow> Inr [])\<rparr>"

definition GeminiClient :: "world \<Rightarrow> client" where
  "GeminiClient w =
     \<lparr>generate = (\<lambda>h req.
        case gemini_generate w h req of
          Inl e \<Rightarrow> Inl e
        | Inr rep \<Rightarrow>
            (case GeminiClient_parse_json (json_loads w) (reply_output rep) of
               Inl e \<Rightarrow> Inl e
             | Inr payload \<Rightarrow>
                 Inr \<lparr>gr_provider = ''gemini'', gr_model = req_model req,
                      gr_output = reply_output rep, gr_json = payload,
                      gr_tokens_used = reply_tokens rep,
                      gr_latency_ms = Some (reply_latency rep)\<rparr>)),
      list_models = (\<lambda>h.
        case gemini_models w h of Inr ms \<Rightarrow> Inr ms | Inl e \<Rightarrow> Inr [])\<rparr>"

definition ClaudeClient :: "world \<Rightarrow> client" where
  "ClaudeClient w =
     \<lparr>generate = (\<lambda>h req.
        case claude_messages w h req of
          Inl e \<Rightarrow> Inl e
        | Inr rep \<Rightarrow>
            (case ClaudeClient_parse_json (json_loads w) (reply_output rep) of
               Inl e \<Rightarrow> Inl e
             | Inr payload \<Rightarrow>
                 Inr \<lparr>gr_provider = ''claude'', gr_model = req_model req,
                      gr_output = reply_output rep, gr_json = payload,
                      gr_tokens_used = reply_tokens rep,
                      gr_latency_ms = Some (reply_latency rep)\<rparr>)),
      list_models = (\<lambda>h. Inl AttributeError)\<rparr>"

section \<open>Router: parsing a fallback-chain entry\<close>

text \<open>
  \<^verbatim>\<open>str.split(sep, 1)\<close> for a one-character separator: at most one split, at the first
  occurrence; the whole string alone when the separator does not occur.
\<close>

fun split_once :: "char \<Rightarrow> string \<Rightarrow> string list" where
  "split_once sep [] = [[]]"
| "split_once sep (c # cs) =
     (if c = sep then [[], cs]
      else (case split_once sep cs of
              [] \<Rightarrow> []
            | p # ps \<Rightarrow> (c # p) # ps))"

text \<open>\<^verbatim>\<open>xs[i]\<close> for a non-negative index.\<close>

definition py_index :: "'a list \<Rightarrow> nat \<Rightarrow> exn + 'a" where
  "py_index xs i = (if i < length xs then Inr (xs ! i) else Inl IndexError)"

text \<open>
  \<^verbatim>\<open>MCPRouter._parse_model_string\<close> (router.py, lines 297-312).
\<close>

definition parse_model_string :: "string \<Rightarrow> exn + (string \<times> string)" where
  "parse_model_string model_string =
     (if CHR '':'' \<in> set model_string then
        (let parts = split_once CHR '':'' model_string in
         case py_index parts 0 of
           Inl e \<Rightarrow> Inl e
         | Inr p \<Rightarrow> (case py_index parts 1 of
                       Inl e \<Rightarrow> Inl e
                     | Inr m \<Rightarrow> Inr (p, m)))
      else Inr (''openai'', model_string))"

section \<open>Router (router.py)\<close>

text \<open>The fields of \<^verbatim>\<open>Config\<close> (utils/config\_loader.py) that the router reads.\<close>

record Config =
  ollama_url :: string
  openai_api_key :: "string option"
  gemini_api_key :: "string option"
  claude_api_key :: "string option"
  fallback_chain :: "string list"
  timeout_seconds :: int
  max_retries :: int
  retry_delay :: py_float

text \<open>Truth value of an optional string: \<^verbatim>\<open>None\<close> and the empty string are false.\<close>

fun key_present :: "string option \<Rightarrow> bool" where
  "key_present None = False"
| "key_present (Some k) = (k \<noteq> [])"

text \<open>
  The router object: its configuration and the dict of clients, in insertion order.
  \<^verbatim>\<open>MCPRouter.__init__\<close> (lines 18-53) adds a client for each provider whose URL or
  key is set.
\<close>

record MCPRouter =
  config :: Config
  clients :: "(string \<times> client) list"

definition MCPRouter_init :: "world \<Rightarrow> Config \<Rightarrow> MCPRouter" where
  "MCPRouter_init w cfg =
     \<lparr>config = cfg,
      clients =
        (if ollama_url cfg \<noteq> [] then [(''ollama'', OllamaClient w)] else []) @
        (if key_present (openai_api_key cfg) then [(''openai'', OpenAIClient w)] else []) @
        (if key_present (gemini_api_key cfg) then [(''gemini'', GeminiClient w)] else []) @
        (if key_present (claude_api_key cfg) then [(''claude'', ClaudeClient w)] else [])\<rparr>"

subsection \<open>Generate with retry\<close>

text \<open>Truth value of a parsed payload, as \<^verbatim>\<open>if result.get("json")\<close> takes it.\<close>

fun py_truthy :: "json \<Rightarrow> bool" where
  "py_truthy JNull = False"
| "py_truthy (JBool b) = b"
| "py_truthy (JInt i) = (i \<noteq> 0)"
| "py_truthy (JFloat x) = (x \<noteq> 0)"
| "py_truthy (JStr s) = (s \<noteq> [])"
| "py_truthy (JArr xs) = (xs \<noteq> [])"
| "py_truthy (JObj kvs) = (kvs \<noteq> [])"

text \<open>
  Lines 211-221: the action or the action sequence of a payload. Every exception of the
  inner \<^verbatim>\<open>try\<close> is caught and leaves both absent. A payload that is not a dict never
  gives an action: on a number or a boolean the test \<^verbatim>\<open>"actions" in payload\<close> raises
  \<^verbatim>\<open>TypeError\<close>; on a list or a string the test is a membership or substring test, and
  when it holds, \<^verbatim>\<open>**payload\<close> raises \<^verbatim>\<open>TypeError\<close>.
\<close>

definition parse_action :: "world \<Rightarrow> json \<Rightarrow> FusionAction option \<times> ActionSequence option" where
  "parse_action w payload =
     (if py_truthy payload then
        (case payload of
           JObj kvs \<Rightarrow>
             (if ''actions'' \<in> fst ` set kvs then
                (case validate_ActionSequence w kvs of
                   Inr sq \<Rightarrow> (None, Some sq)
                 | Inl e \<Rightarrow> (None, None))
              else if ''action'' \<in> fst ` set kvs then
                (case validate_FusionAction w kvs of
                   Inr a \<Rightarrow> (Some a, None)
                 | Inl e \<Rightarrow> (None, None))
              else (None, None))
         | _ \<Rightarrow> (None, None))
      else (None, None))"

text \<open>
  Lines 202-237, the body of the \<^verbatim>\<open>try\<close> of one attempt: the call of the client and
  the construction of the successful response. \<open>Inl\<close> is the exception that the
  \<^verbatim>\<open>except\<close> of line 239 catches. The metadata is built first, as an argument;
  \<^verbatim>\<open>LLMResponse\<close> then requires a string for \<^verbatim>\<open>raw_output\<close>.
\<close>

definition attempt_once ::
  "world \<Rightarrow> client \<Rightarrow> gen_request \<Rightarrow> history \<Rightarrow> exn + LLMResponse" where
  "attempt_once w cl req h =
     (case generate cl h req of
        Inl e \<Rightarrow> Inl e
      | Inr result \<Rightarrow>
          (case parse_action w (gr_json result) of
             (act, sq) \<Rightarrow>
               (case new_LLMResponseMetadata (gr_provider result) (gr_model result)
                       (gr_tokens_used result) (gr_latency_ms result)
                       (Some (req_temperature req)) of
                  Inl e \<Rightarrow> Inl e
                | Inr md \<Rightarrow>
                    (case gr_output result of
                       None \<Rightarrow> Inl (ValidationError ''LLMResponse.raw_output'')
                     | Some out \<Rightarrow>
                         Inr \<lparr>success = True, resp_provider = gr_provider result,
                              resp_model = gr_model result, raw_output = out,
                              resp_action = act, action_sequence = sq,
                              clarifying_questions = [], reasoning = None,
                              resp_metadata = md, resp_error = None\<rparr>))))"

text \<open>
  Lines 200-243, the loop over \<^verbatim>\<open>range(max_retries)\<close>. The result is the response
  returned from inside the loop, if any, and \<^verbatim>\<open>last_error\<close>. Each call of the client
  and each sleep is appended to the history.
\<close>

fun retry_loop ::
  "world \<Rightarrow> Config \<Rightarrow> client \<Rightarrow> string \<Rightarrow> gen_request \<Rightarrow> int list \<Rightarrow> exn option \<Rightarrow> history
     \<Rightarrow> (LLMResponse option \<times> exn option) \<times> history" where
  "retry_loop w cfg cl provider req [] last_error h = ((None, last_error), h)"
| "retry_loop w cfg cl provider req (attempt # rest) last_error h =
     (case attempt_once w cl req h of
        Inr resp \<Rightarrow> ((Some resp, last_error), h @ [EvGenerate provider req])
      | Inl e \<Rightarrow>
          retry_loop w cfg cl provider req rest (Some e)
            (if attempt < max_retries cfg - 1
             then h @ [EvGenerate provider req, EvSleep (retry_delay cfg)]
             else h @ [EvGenerate provider req]))"

text \<open>\<^verbatim>\<open>str(last_error)\<close>; of \<^verbatim>\<open>None\<close> it is the text \<^verbatim>\<open>None\<close>.\<close>

fun str_last_error :: "exn option \<Rightarrow> string" where
  "str_last_error None = ''None''"
| "str_last_error (Some e) = str_exn e"

text \<open>\<^verbatim>\<open>range(n)\<close>.\<close>

definition py_range :: "int \<Rightarrow> int list" where
  "py_range n = map int [0 ..< nat n]"

text \<open>\<^verbatim>\<open>MCPRouter._generate_with_retry\<close> (lines 159-259).\<close>

definition generate_with_retry ::
  "world \<Rightarrow> MCPRouter \<Rightarrow> string \<Rightarrow> string \<Rightarrow> string \<Rightarrow> string option \<Rightarrow> py_float
     \<Rightarrow> int option \<Rightarrow> history \<Rightarrow> (exn + LLMResponse) \<times> history" where
  "generate_with_retry w r provider model prompt_text system_prompt temperature mx h =
     (case map_of (clients r) provider of
        None \<Rightarrow>
          (case new_LLMResponseMetadata provider model None None None of
             Inl e \<Rightarrow> (Inl e, h)
           | Inr md \<Rightarrow>
               (Inr \<lparr>success = False, resp_provider = provider, resp_model = model,
                     raw_output = [], resp_action = None, action_sequence = None,
                     clarifying_questions = [], reasoning = None, resp_metadata = md,
                     resp_error = Some
                       \<lparr>err_type = ''provider_not_available'',
                        err_message = ''Provider '' @ provider @ '' not configured'',
                        err_provider = provider, retry_count = 0,
                        recoverable = False\<rparr>\<rparr>, h))
      | Some cl \<Rightarrow>
          (case retry_loop w (config r) cl provider
                  \<lparr>req_model = model, req_prompt = prompt_text,
                   req_system_prompt = system_prompt, req_temperature = temperature,
                   req_max_tokens = mx\<rparr>
                  (py_range (max_retries (config r))) None h of
             ((Some resp, last_error), h') \<Rightarrow> (Inr resp, h')
           | ((None, last_error), h') \<Rightarrow>
               (case new_LLMResponseMetadata provider model None None None of
                  Inl e \<Rightarrow> (Inl e, h')
                | Inr md \<Rightarrow>
                    (Inr \<lparr>success = False, resp_provider = provider, resp_model = model,
                          raw_output = [], resp_action = None, action_sequence = None,
                          clarifying_questions = [], reasoning = None, resp_metadata = md,
                          resp_error = Some
                            \<lparr>err_type = ''generation_failed'',
                             err_message = str_last_error last_error,
                             err_provider = provider,
                             retry_count = max_retries (config r),
                             recoverable = True\<rparr>\<rparr>, h'))))"

subsection \<open>The ask\_model command\<close>

text \<open>
  Lines 121-132, the loop over the fallback chain. \<open>cur\<close> is the response held by
  \<^verbatim>\<open>llm_response\<close> when the iteration starts; an exception ends the loop and the
  command.
\<close>

fun fallback_loop ::
  "world \<Rightarrow> MCPRouter \<Rightarrow> string list \<Rightarrow> string \<Rightarrow> string option \<Rightarrow> py_float \<Rightarrow> int option
     \<Rightarrow> LLMResponse \<Rightarrow> history \<Rightarrow> (exn + LLMResponse) \<times> history" where
  "fallback_loop w r [] prompt_text system_prompt temperature mx cur h = (Inr cur, h)"
| "fallback_loop w r (fallback # rest) prompt_text system_prompt temperature mx cur h =
     (case parse_model_string fallback of
        Inl e \<Rightarrow> (Inl e, h)
      | Inr (fallback_provider, fallback_model) \<Rightarrow>
          (case generate_with_retry w r fallback_provider fallback_model prompt_text
                  system_prompt temperature mx h of
             (Inl e, h') \<Rightarrow> (Inl e, h')
           | (Inr resp, h') \<Rightarrow>
               (if success resp then (Inr resp, h')
                else fallback_loop w r rest prompt_text system_prompt temperature mx
                       resp h')))"

text \<open>
  Lines 134-157: the envelope of the chosen response. \<open>derived_actions\<close> is the
  list \<^verbatim>\<open>actions\<close> of lines 136-140: the single action, else the actions of the
  sequence.
\<close>

definition derived_actions :: "LLMResponse \<Rightarrow> FusionAction list" where
  "derived_actions resp =
     (case resp_action resp of
        Some a \<Rightarrow> [a]
      | None \<Rightarrow>
          (case action_sequence resp of
             Some sq \<Rightarrow> actions sq
           | None \<Rightarrow> []))"

definition build_response :: "LLMResponse \<Rightarrow> MCPResponse" where
  "build_response resp =
     (if success resp then
        (let acts = derived_actions resp
         in \<lparr>status = (if acts \<noteq> [] then StSuccess else StClarificationNeeded),
              llm_response = Some resp,
              message = (if acts \<noteq> [] then ''Action generated successfully''
                         else ''Need clarification''),
              actions_to_execute = acts,
              warnings = []\<rparr>)
      else
        \<lparr>status = StError,
         llm_response = Some resp,
         message = ''All providers failed: '' @
           (case resp_error resp of
              Some e \<Rightarrow> err_message e
            | None \<Rightarrow> ''Unknown error''),
         actions_to_execute = [],
         warnings = []\<rparr>)"

definition newline :: string where
  "newline = [CHR 0x0A]"

text \<open>Lines 101-106: the prompt with the design context in front.\<close>

definition context_prompt :: "DesignContext option \<Rightarrow> string \<Rightarrow> string" where
  "context_prompt ctx prompt_text =
     (case ctx of
        None \<Rightarrow> prompt_text
      | Some c \<Rightarrow>
          (newline @ ''Design Context:'' @ newline @
           ''- Active Component: '' @ active_component c @ newline @
           ''- Units: '' @ units c @ newline @
           ''- Design State: '' @ design_state c @ newline) @ newline @ prompt_text)"


text \<open>\<^verbatim>\<open>MCPRouter._handle_ask_model\<close> (lines 83-157).\<close>

definition handle_ask_model ::
  "world \<Rightarrow> MCPRouter \<Rightarrow> MCPCommand \<Rightarrow> string option \<Rightarrow> history
     \<Rightarrow> (exn + MCPResponse) \<times> history" where
  "handle_ask_model w r cmd system_prompt h =
     (case cmd_params cmd of
        None \<Rightarrow>
          (Inr \<lparr>status = StError, llm_response = None,
                message = ''Missing model parameters'',
                actions_to_execute = [], warnings = []\<rparr>, h)
      | Some p \<Rightarrow>
          (let prompt_text = context_prompt (cmd_context cmd) (prompt p) in
           case generate_with_retry w r (provider_name (mp_provider p)) (mp_model p)
                  prompt_text system_prompt (mp_temperature p) (max_tokens p) h of
             (Inl e, h1) \<Rightarrow> (Inl e, h1)
           | (Inr resp, h1) \<Rightarrow>
               (case (if \<not> success resp \<and> fallback_chain (config r) \<noteq> [] then
                        fallback_loop w r (fallback_chain (config r)) prompt_text
                          system_prompt (mp_temperature p) (max_tokens p) resp h1
                      else (Inr resp, h1)) of
                  (Inl e, h2) \<Rightarrow> (Inl e, h2)
                | (Inr chosen, h2) \<Rightarrow> (Inr (build_response chosen), h2))))"

subsection \<open>The list\_models and health\_check commands, and the dispatch\<close>

text \<open>\<^verbatim>\<open>d[k] = v\<close> on a dict kept in insertion order.\<close>

definition dict_set :: "'k \<Rightarrow> 'v \<Rightarrow> ('k \<times> 'v) list \<Rightarrow> ('k \<times> 'v) list" where
  "dict_set k v d =
     (if k \<in> fst ` set d then map (\<lambda>(k', v'). if k' = k then (k', v) else (k', v')) d
      else d @ [(k, v)])"

text \<open>Lines 263-270: one \<^verbatim>\<open>list_models\<close> call per client, an empty list where it raises.\<close>

fun list_models_loop ::
  "(string \<times> client) list \<Rightarrow> (string \<times> string list) list \<Rightarrow> history
     \<Rightarrow> (string \<times> string list) list \<times> history" where
  "list_models_loop [] models h = (models, h)"
| "list_models_loop ((provider, cl) # rest) models h =
     (case list_models cl h of
        Inr provider_models \<Rightarrow>
          list_models_loop rest (dict_set provider provider_models models)
            (h @ [EvListModels provider])
      | Inl e \<Rightarrow>
          list_models_loop rest (dict_set provider [] models)
            (h @ [EvListModels provider]))"

text \<open>
  \<^verbatim>\<open>MCPRouter._handle_list_models\<close> (lines 261-283). The arguments of the envelope are
  evaluated before it is built: the text of the dict, then the metadata.
\<close>

definition handle_list_models ::
  "world \<Rightarrow> MCPRouter \<Rightarrow> history \<Rightarrow> (exn + MCPResponse) \<times> history" where
  "handle_list_models w r h =
     (case list_models_loop (clients r) [] h of
        (models, h') \<Rightarrow>
          (let raw = str_of_models w models in
           case new_LLMResponseMetadata ''system'' ''list_models'' None None None of
             Inl e \<Rightarrow> (Inl e, h')
           | Inr md \<Rightarrow>
               (Inr \<lparr>status = StSuccess,
                     llm_response = Some
                       \<lparr>success = True, resp_provider = ''system'',
                        resp_model = ''list_models'', raw_output = raw,
                        resp_action = None, action_sequence = None,
                        clarifying_questions = [], reasoning = None,
                        resp_metadata = md, resp_error = None\<rparr>,
                     message = ''Models listed successfully'',
                     actions_to_execute = [], warnings = []\<rparr>, h')))"

text \<open>
  \<^verbatim>\<open>str\<close> of a list of provider names; the names have no quote and no backslash, so
  each is printed between single quotes.
\<close>

fun join_names :: "string list \<Rightarrow> string" where
  "join_names [] = []"
| "join_names [k] = [CHR 0x27] @ k @ [CHR 0x27]"
| "join_names (k # ks) = [CHR 0x27] @ k @ [CHR 0x27] @ '', '' @ join_names ks"

definition str_of_names :: "string list \<Rightarrow> string" where
  "str_of_names ks = ''['' @ join_names ks @ '']''"

text \<open>\<^verbatim>\<open>MCPRouter._handle_health_check\<close> (lines 285-295).\<close>

definition handle_health_check :: "MCPRouter \<Rightarrow> history \<Rightarrow> (exn + MCPResponse) \<times> history" where
  "handle_health_check r h =
     (Inr \<lparr>status = StSuccess, llm_response = None,
           message = ''Healthy providers: '' @ str_of_names (map fst (clients r)),
           actions_to_execute = [], warnings = []\<rparr>, h)"

text \<open>\<^verbatim>\<open>MCPRouter.route_command\<close> (lines 55-81).\<close>

definition route_command ::
  "world \<Rightarrow> MCPRouter \<Rightarrow> MCPCommand \<Rightarrow> string option \<Rightarrow> history
     \<Rightarrow> (exn + MCPResponse) \<times> history" where
  "route_command w r cmd system_prompt h =
     (if command cmd = AskModel then handle_ask_model w r cmd system_prompt h
      else if command cmd = ListModels then handle_list_models w r h
      else if command cmd = HealthCheck then handle_health_check r h
      else
        (Inr \<lparr>status = StError, llm_response = None,
              message = ''Unknown command: '' @ command_name (command cmd),
              actions_to_execute = [], warnings = []\<rparr>, h))"

section \<open>Serialising and validating the action models\<close>



fun optional_str_field :: "json option \<Rightarrow> exn + string option" where
  "optional_str_field None = Inr None"
| "optional_str_field (Some JNull) = Inr None"
| "optional_str_field (Some (JStr s)) = Inr (Some s)"
| "optional_str_field (Some v) = Inl (ValidationError ''str'')"

fun str_items :: "json list \<Rightarrow> exn + string list" where
  "str_items [] = Inr []"
| "str_items (JStr s # vs) =
     (case str_items vs of Inl e \<Rightarrow> Inl e | Inr ss \<Rightarrow> Inr (s # ss))"
| "str_items (v # vs) = Inl (ValidationError ''str'')"

fun str_list_field :: "json option \<Rightarrow> exn + string list" where
  "str_list_field None = Inr []"
| "str_list_field (Some (JArr vs)) = str_items vs"
| "str_list_field (Some v) = Inl (ValidationError ''list'')"

fun optional_float_field :: "json option \<Rightarrow> exn + py_float option" where
  "optional_float_field None = Inr None"
| "optional_float_field (Some JNull) = Inr None"
| "optional_float_field (Some (JFloat x)) = Inr (Some x)"
| "optional_float_field (Some (JInt i)) = Inr (Some (of_int i))"
| "optional_float_field (Some v) = Inl (ValidationError ''float'')"

definition FusionAction_validate :: "(string \<times> json) list \<Rightarrow> exn + FusionAction" where
  "FusionAction_validate d =
     (case map_of d ''action'' of
        Some (JStr a) \<Rightarrow>
          (case map_of d ''params'' of
             Some (JObj ps) \<Rightarrow>
               (case optional_str_field (map_of d ''explanation'') of
                  Inl e \<Rightarrow> Inl e
                | Inr ex \<Rightarrow>
                    (case str_list_field (map_of d ''safety_checks'') of
                       Inl e \<Rightarrow> Inl e
                     | Inr sc \<Rightarrow>
                         (case str_list_field (map_of d ''dependencies'') of
                            Inl e \<Rightarrow> Inl e
                          | Inr dp \<Rightarrow>
                              Inr \<lparr>fa_action = a, fa_params = ps, explanation = ex,
                                   safety_checks = sc, dependencies = dp\<rparr>)))
           | _ \<Rightarrow> Inl (ValidationError ''FusionAction.params''))
      | _ \<Rightarrow> Inl (ValidationError ''FusionAction.action''))"

fun action_items :: "json list \<Rightarrow> exn + FusionAction list" where
  "action_items [] = Inr []"
| "action_items (JObj d # vs) =
     (case FusionAction_validate d of
        Inl e \<Rightarrow> Inl e
      | Inr a \<Rightarrow> (case action_items vs of Inl e \<Rightarrow> Inl e | Inr as \<Rightarrow> Inr (a # as)))"
| "action_items (v # vs) = Inl (ValidationError ''FusionAction'')"

definition ActionSequence_validate :: "(string \<times> json) list \<Rightarrow> exn + ActionSequence" where
  "ActionSequence_validate d =
     (case map_of d ''actions'' of
        Some (JArr vs) \<Rightarrow>
          (case action_items vs of
             Inl e \<Rightarrow> Inl e
           | Inr as \<Rightarrow>
               (case map_of d ''total_steps'' of
                  Some (JInt n) \<Rightarrow>
                    (case optional_float_field (map_of d ''estimated_time_seconds'') of
                       Inl e \<Rightarrow> Inl e
                     | Inr t \<Rightarrow>
                         Inr \<lparr>actions = as, total_steps = n,
                              estimated_time_seconds = t\<rparr>)
                | _ \<Rightarrow> Inl (ValidationError ''ActionSequence.total_steps'')))
      | _ \<Rightarrow> Inl (ValidationError ''ActionSequence.actions''))"

section \<open>A decoder for a fragment of JSON\<close>

text \<open>
  The properties of the adapters and of the router hold for every \<^verbatim>\<open>json.loads\<close>. To
  run them on concrete texts, \<open>json_decode\<close> decodes the JSON texts made of objects,
  arrays, strings without escapes, integers, \<^verbatim>\<open>true\<close>, \<^verbatim>\<open>false\<close> and \<^verbatim>\<open>null\<close>,
  as \<^verbatim>\<open>json.loads\<close> does on them; it gives \<open>None\<close> on any other text, and on a
  text whose decoding needs more than \<open>2 * length s + 2\<close> nested calls.
\<close>

definition is_ws :: "char \<Rightarrow> bool" where
  "is_ws c = (c \<in> set [CHR '' '', CHR 0x0A, CHR 0x0D, CHR 0x09])"

definition skip_ws :: "string \<Rightarrow> string" where
  "skip_ws s = dropWhile is_ws s"

definition is_digit :: "char \<Rightarrow> bool" where
  "is_digit c = (c \<in> set ''0123456789'')"

definition digits_value :: "string \<Rightarrow> int" where
  "digits_value ds = foldl (\<lambda>a c. 10 * a + (of_char c - 48)) 0 ds"

definition decode_string :: "string \<Rightarrow> (string \<times> string) option" where
  "decode_string s =
     (let body = takeWhile (\<lambda>c. c \<noteq> CHR 0x22) s;
          rest = dropWhile (\<lambda>c. c \<noteq> CHR 0x22) s
      in if rest = [] \<or> list_ex (\<lambda>c. c = CHR 0x5C \<or> (of_char c :: nat) < 32) body
         then None
         else Some (body, tl rest))"

definition decode_digits :: "string \<Rightarrow> (int \<times> string) option" where
  "decode_digits s =
     (let ds = takeWhile is_digit s; rest = dropWhile is_digit s in
      if ds = [] \<or> (take 1 ds = ''0'' \<and> length ds > 1) then None
      else if take 1 rest = ''.'' \<or> take 1 rest = ''e'' \<or> take 1 rest = ''E'' then None
      else Some (digits_value ds, rest))"

definition decode_atom :: "string \<Rightarrow> (json \<times> string) option" where
  "decode_atom s =
     (if take 4 s = ''null'' then Some (JNull, drop 4 s)
      else if take 4 s = ''true'' then Some (JBool True, drop 4 s)
      else if take 5 s = ''false'' then Some (JBool False, drop 5 s)
      else if take 1 s = ''-'' then
        map_option (\<lambda>(i, r). (JInt (- i), r)) (decode_digits (drop 1 s))
      else map_option (\<lambda>(i, r). (JInt i, r)) (decode_digits s))"

fun decode_value :: "nat \<Rightarrow> string \<Rightarrow> (json \<times> string) option"
  and decode_elements :: "nat \<Rightarrow> string \<Rightarrow> json list \<Rightarrow> (json \<times> string) option"
  and decode_members ::
    "nat \<Rightarrow> string \<Rightarrow> (string \<times> json) list \<Rightarrow> (json \<times> string) option"
  where
  "decode_value 0 s = None"
| "decode_value (Suc n) s =
     (case skip_ws s of
        [] \<Rightarrow> None
      | c # cs \<Rightarrow>
          if c = CHR ''{'' then
            (if take 1 (skip_ws cs) = ''}'' then Some (JObj [], drop 1 (skip_ws cs))
             else decode_members n cs [])
          else if c = CHR ''['' then
            (if take 1 (skip_ws cs) = '']'' then Some (JArr [], drop 1 (skip_ws cs))
             else decode_elements n cs [])
          else if c = CHR 0x22 then
            map_option (\<lambda>(str, r). (JStr str, r)) (decode_string cs)
          else decode_atom (c # cs))"
| "decode_elements 0 s acc = None"
| "decode_elements (Suc n) s acc =
     (case decode_value n s of
        None \<Rightarrow> None
      | Some (v, r) \<Rightarrow>
          (if take 1 (skip_ws r) = '','' then
             decode_elements n (drop 1 (skip_ws r)) (acc @ [v])
           else if take 1 (skip_ws r) = '']'' then
             Some (JArr (acc @ [v]), drop 1 (skip_ws r))
           else None))"
| "decode_members 0 s acc = None"
| "decode_members (Suc n) s acc =
     (if take 1 (skip_ws s) = [CHR 0x22] then
        (case decode_string (drop 1 (skip_ws s)) of
           None \<Rightarrow> None
         | Some (k, r) \<Rightarrow>
             (if take 1 (skip_ws r) = '':'' then
                (case decode_value n (drop 1 (skip_ws r)) of
                   None \<Rightarrow> None
                 | Some (v, r') \<Rightarrow>
                     (if take 1 (skip_ws r') = '','' then
                        decode_members n (drop 1 (skip_ws r')) (dict_set k v acc)
                      else if take 1 (skip_ws r') = ''}'' then
                        Some (JObj (dict_set k v acc), drop 1 (skip_ws r'))
                      else None))
              else None))
      else None)"

definition json_decode :: "string \<Rightarrow> json option" where
  "json_decode s =
     (case decode_value (2 * length s + 2) s of
        None \<Rightarrow> None
      | Some (v, r) \<Rightarrow> if skip_ws r = [] then Some v else None)"

text \<open>
  \<open>sample_loads\<close> is \<open>json_decode\<close> as a \<^verbatim>\<open>json.loads\<close>: a text that does not decode
  raises \<^verbatim>\<open>JSONDecodeError\<close>. \<open>deep_loads\<close> is the same with a recursion limit: a text
  that opens a thousand arrays or more raises \<^verbatim>\<open>RecursionError\<close>.
\<close>

definition sample_loads :: "string \<Rightarrow> exn + json" where
  "sample_loads s = (case json_decode s of Some v \<Rightarrow> Inr v | None \<Rightarrow> Inl JSONDecodeError)"

definition deep_loads :: "string \<Rightarrow> exn + json" where
  "deep_loads s =
     (if 1000 \<le> length (takeWhile (\<lambda>c. c = CHR ''['') s) then Inl RecursionError
      else sample_loads s)"

section \<open>Payload extraction as the specification words it\<close>

text \<open>
  The substring from the first opening brace to the last closing brace, when the text has
  both: what is left of the text up to its last \<open>}\<close> once everything before the first
  \<open>{\<close> is dropped (nothing, if that brace comes later).
\<close>

definition brace_span :: "string \<Rightarrow> string option" where
  "brace_span text =
     (if CHR ''{'' \<in> set text \<and> CHR ''}'' \<in> set text then
        Some (dropWhile (\<lambda>c. c \<noteq> CHR ''{'')
                (rev (dropWhile (\<lambda>c. c \<noteq> CHR ''}'') (rev text))))
      else None)"

text \<open>
  The two-stage parse of the specification, for a text: the whole text first; only when
  that fails, the brace substring; absent when both fail. A stage fails when
  \<^verbatim>\<open>json.loads\<close> raises \<^verbatim>\<open>JSONDecodeError\<close>; any other outcome of a stage, a value or
  another exception, is the outcome of the parse.
\<close>

definition two_stage_parse :: "(string \<Rightarrow> exn + json) \<Rightarrow> string \<Rightarrow> exn + json" where
  "two_stage_parse loads text =
     (if loads text \<noteq> Inl JSONDecodeError then loads text
      else (case brace_span text of
              None \<Rightarrow> Inr JNull
            | Some sub \<Rightarrow>
                if loads sub \<noteq> Inl JSONDecodeError then loads sub else Inr JNull))"

text \<open>The same two stages in the other order: the brace substring first.\<close>

definition brace_first_parse :: "(string \<Rightarrow> exn + json) \<Rightarrow> string \<Rightarrow> exn + json" where
  "brace_first_parse loads text =
     (case brace_span text of
        Some sub \<Rightarrow>
          if loads sub \<noteq> Inl JSONDecodeError then loads sub
          else if loads text \<noteq> Inl JSONDecodeError then loads text
          else Inr JNull
      | None \<Rightarrow>
          if loads text \<noteq> Inl JSONDecodeError then loads text else Inr JNull)"

section \<open>Failing entries of a fallback chain\<close>

text \<open>
  \<open>entries_fail w r entries \<dots> h h'\<close>: generate-with-retry, run for the entries one after
  the other from the history \<open>h\<close> with the same prompt and parameters, returns a failed
  result for each of them and leaves the history \<open>h'\<close>.
\<close>

fun entries_fail ::
  "world \<Rightarrow> MCPRouter \<Rightarrow> string list \<Rightarrow> string \<Rightarrow> string option \<Rightarrow> py_float \<Rightarrow> int option
     \<Rightarrow> history \<Rightarrow> history \<Rightarrow> bool" where
  "entries_fail w r [] prompt_text system_prompt temperature mx h h' = (h' = h)"
| "entries_fail w r (entry # rest) prompt_text system_prompt temperature mx h h' =
     (case parse_model_string entry of
        Inl e \<Rightarrow> False
      | Inr (p, m) \<Rightarrow>
          (case generate_with_retry w r p m prompt_text system_prompt temperature mx h of
             (Inl e, h1) \<Rightarrow> False
           | (Inr resp, h1) \<Rightarrow>
               \<not> success resp \<and>
               entries_fail w r rest prompt_text system_prompt temperature mx h1 h'))"

section \<open>The expected trace of an exhausted retry\<close>

text \<open>
  \<open>retry_trace provider req d n\<close> is \<open>n\<close> calls of the provider's \<^verbatim>\<open>generate\<close> with a
  sleep of \<open>d\<close> between two consecutive calls and none after the last.
\<close>

fun retry_trace :: "string \<Rightarrow> gen_request \<Rightarrow> py_float \<Rightarrow> nat \<Rightarrow> event list" where
  "retry_trace provider req d 0 = []"
| "retry_trace provider req d (Suc 0) = [EvGenerate provider req]"
| "retry_trace provider req d (Suc (Suc n)) =
     EvGenerate provider req # EvSleep d # retry_trace provider req d (Suc n)"

text \<open>
  \<open>attempt_history provider req d k\<close> is what \<open>k\<close> failed attempts that were not the last
  leave in the history: \<open>k\<close> times a call followed by a sleep.
\<close>

fun attempt_history :: "string \<Rightarrow> gen_request \<Rightarrow> py_float \<Rightarrow> nat \<Rightarrow> event list" where
  "attempt_history provider req d 0 = []"
| "attempt_history provider req d (Suc k) =
     EvGenerate provider req # EvSleep d # attempt_history provider req d k"

fun is_generate :: "event \<Rightarrow> bool" where
  "is_generate (EvGenerate p req) = True"
| "is_generate e = False"

fun is_sleep :: "event \<Rightarrow> bool" where
  "is_sleep (EvSleep d) = True"
| "is_sleep e = False"

section \<open>A concrete world and configuration\<close>

text \<open>
  A world to run the router in: the Ollama server is down and its command line is not
  installed, OpenAI answers with one action unless asked for the model \<open>bad\<close>, which it
  does not have, Gemini refuses, Claude answers in prose.
\<close>

definition box_reply :: string where
  "box_reply =
     [CHR ''{'', CHR 0x22] @ ''action'' @ [CHR 0x22] @ '': '' @
     [CHR 0x22] @ ''create_box'' @ [CHR 0x22] @ '', '' @
     [CHR 0x22] @ ''params'' @ [CHR 0x22] @ '': {'' @
     [CHR 0x22] @ ''width'' @ [CHR 0x22] @ '': 20}}''"

definition quoted :: "string \<Rightarrow> string" where
  "quoted k = [CHR 0x27] @ k @ [CHR 0x27]"

fun join_entries :: "(string \<times> string list) list \<Rightarrow> string" where
  "join_entries [] = []"
| "join_entries [(k, vs)] = quoted k @ '': '' @ str_of_names vs"
| "join_entries ((k, vs) # ms) =
     quoted k @ '': '' @ str_of_names vs @ '', '' @ join_entries ms"

definition sample_world :: world where
  "sample_world =
     \<lparr>json_loads = sample_loads,
      str_of_models = (\<lambda>ms. ''{'' @ join_entries ms @ ''}''),
      validate_FusionAction = FusionAction_validate,
      validate_ActionSequence = ActionSequence_validate,
      ollama_rest = (\<lambda>h req. Inl (Failure ''Cannot connect to host localhost:11434'')),
      ollama_cli = (\<lambda>h req. Inl (Failure ''Ollama CLI not found. Please install Ollama.'')),
      openai_chat = (\<lambda>h req.
        if req_model req = ''bad'' then Inl (Failure ''The model does not exist'')
        else Inr \<lparr>reply_output = Some box_reply, reply_tokens = Some 150,
                  reply_latency = 1200\<rparr>),
      gemini_generate = (\<lambda>h req. Inl (Failure ''429 quota exceeded'')),
      claude_messages = (\<lambda>h req.
        Inr \<lparr>reply_output = Some ''Which size should the box have?'',
             reply_tokens = Some 40, reply_latency = 800\<rparr>),
      ollama_tags = (\<lambda>h. Inl (Failure ''Cannot connect to host localhost:11434'')),
      openai_models = (\<lambda>h. Inr [''gpt-4o'', ''gpt-4o-mini'']),
      gemini_models = (\<lambda>h. Inr [''gemini-1.5-flash''])\<rparr>"

definition sample_config :: Config where
  "sample_config =
     \<lparr>ollama_url = ''http://localhost:11434'',
      openai_api_key = Some ''sk-test'',
      gemini_api_key = None,
      claude_api_key = Some ''sk-ant-test'',
      fallback_chain = [''gemini:gemini-1.5-flash'', ''openai:gpt-4o-mini'',
                        ''claude:claude-3-5-sonnet''],
      timeout_seconds = 30,
      max_retries = 3,
      retry_delay = 1\<rparr>"

definition ask :: "provider_id \<Rightarrow> string \<Rightarrow> MCPCommand" where
  "ask p m =
     \<lparr>command = AskModel,
      cmd_params = Some \<lparr>mp_provider = p, mp_model = m, prompt = ''Create a 20mm cube'',
                         mp_temperature = 7 / 10, max_tokens = Some 2000\<rparr>,
      cmd_context = None, action_data = None, cmd_metadata = []\<rparr>"

text \<open>The values that the runs below are compared with.\<close>

definition sample_request :: "string \<Rightarrow> gen_request" where
  "sample_request m =
     \<lparr>req_model = m, req_prompt = ''Create a 20mm cube'', req_system_prompt = None,
      req_temperature = 7 / 10, req_max_tokens = Some 2000\<rparr>"

definition box_action :: FusionAction where
  "box_action =
     \<lparr>fa_action = ''create_box'', fa_params = [(''width'', JInt 20)], explanation = None,
      safety_checks = [], dependencies = []\<rparr>"

definition openai_box_response :: LLMResponse where
  "openai_box_response =
     \<lparr>success = True, resp_provider = ''openai'', resp_model = ''gpt-4o-mini'',
      raw_output = box_reply, resp_action = Some box_action, action_sequence = None,
      clarifying_questions = [], reasoning = None,
      resp_metadata = \<lparr>md_provider = ''openai'', md_model = ''gpt-4o-mini'',
                       tokens_used = Some 150, latency_ms = Some 1200,
                       md_temperature = Some (7 / 10)\<rparr>,
      resp_error = None\<rparr>"



definition openai_bad_response :: LLMResponse where
  "openai_bad_response =
     \<lparr>success = False, resp_provider = ''openai'', resp_model = ''bad'',
      raw_output = [], resp_action = None, action_sequence = None,
      clarifying_questions = [], reasoning = None,
      resp_metadata = \<lparr>md_provider = ''openai'', md_model = ''bad'',
                       tokens_used = None, latency_ms = None, md_temperature = None\<rparr>,
      resp_error = Some
        \<lparr>err_type = ''generation_failed'',
         err_message = ''The model does not exist'',
         err_provider = ''openai'', retry_count = 3, recoverable = True\<rparr>\<rparr>"

definition ollama_down_response :: LLMResponse where
  "ollama_down_response =
     \<lparr>success = False, resp_provider = ''ollama'', resp_model = ''llama3'',
      raw_output = [], resp_action = None, action_sequence = None,
      clarifying_questions = [], reasoning = None,
      resp_metadata = \<lparr>md_provider = ''ollama'', md_model = ''llama3'',
                       tokens_used = None, latency_ms = None, md_temperature = None\<rparr>,
      resp_error = Some
        \<lparr>err_type = ''generation_failed'',
         err_message = ''Ollama CLI not found. Please install Ollama.'',
         err_provider = ''ollama'', retry_count = 3, recoverable = True\<rparr>\<rparr>"

definition ollama_trace :: "event list" where
  "ollama_trace =
     [EvGenerate ''ollama'' (sample_request ''llama3''), EvSleep 1,
      EvGenerate ''ollama'' (sample_request ''llama3''), EvSleep 1,
      EvGenerate ''ollama'' (sample_request ''llama3'')]"

definition list_command :: MCPCommand where
  "list_command =
     \<lparr>command = ListModels, cmd_params = None, cmd_context = None, action_data = None,
      cmd_metadata = []\<rparr>"

section \<open>Properties\<close>

subsection \<open>Fallback-chain entries\<close>

lemma split_once_at_first:
  "sep \<notin> set p \<Longrightarrow> split_once sep (p @ sep # m) = [p, m]"
  by (induction p) auto

text \<open>
  Claim C7. An entry is split at its first colon: whatever stands before the first colon
  is the provider identifier and everything after it (later colons included) is the model
  name. An entry without a colon is the model name of provider \<open>openai\<close>.
\<close>

theorem parse_model_string_first_colon:
  "(CHR '':'' \<notin> set p \<longrightarrow> parse_model_string (p @ CHR '':'' # m) = Inr (p, m)) \<and>
   (CHR '':'' \<notin> set s \<longrightarrow> parse_model_string s = Inr (''openai'', s))"
  by (simp add: parse_model_string_def py_index_def split_once_at_first)

theorem parse_model_string_first_colon_witness:
  "parse_model_string ''ollama:llama3:8b'' = Inr (''ollama'', ''llama3:8b'') \<and>
   parse_model_string ''gpt-4o-mini'' = Inr (''openai'', ''gpt-4o-mini'')"
  using parse_model_string_first_colon [of "''ollama''" "''llama3:8b''" "''gpt-4o-mini''"]
  by simp

subsection \<open>Missing model parameters\<close>

text \<open>
  Claim C10. An \<open>ask_model\<close> command without model parameters is answered by the router
  itself: the error envelope with the message \<open>Missing model parameters\<close> and no action.
  The history is unchanged, so no adapter was called, and the result is an envelope, not
  an exception.
\<close>

theorem route_missing_params:
  assumes "command cmd = AskModel" and "cmd_params cmd = None"
  shows "route_command w r cmd system_prompt h =
           (Inr \<lparr>status = StError, llm_response = None,
                 message = ''Missing model parameters'',
                 actions_to_execute = [], warnings = []\<rparr>, h)"
  using assms by (simp add: route_command_def handle_ask_model_def)

theorem route_missing_params_witness:
  "route_command sample_world (MCPRouter_init sample_world sample_config)
     \<lparr>command = AskModel, cmd_params = None, cmd_context = None, action_data = None,
      cmd_metadata = []\<rparr> None [] =
   (Inr \<lparr>status = StError, llm_response = None, message = ''Missing model parameters'',
         actions_to_execute = [], warnings = []\<rparr>, [])"
  using route_missing_params
    [of "\<lparr>command = AskModel, cmd_params = None, cmd_context = None, action_data = None,
          cmd_metadata = []\<rparr>" sample_world "MCPRouter_init sample_world sample_config"
        None "[]"]
  by simp

subsection \<open>Status of the envelope\<close>

lemma literal_provider_name: "provider_name p \<in> set provider_literal"
  by (cases p) (simp_all add: provider_literal_def)

lemma build_response_status:
  "status (build_response resp) =
     (if \<not> success resp then StError
      else if derived_actions resp = [] then StClarificationNeeded else StSuccess)"
  by (simp add: build_response_def Let_def)


lemma build_response_llm: "llm_response (build_response resp) = Some resp"
  by (simp add: build_response_def Let_def)





subsection \<open>A provider that is not configured\<close>

lemma generate_unconfigured:
  assumes "map_of (clients r) provider = None" and "provider \<in> set provider_literal"
  shows "generate_with_retry w r provider model pt sp t mx h =
           (Inr \<lparr>success = False, resp_provider = provider, resp_model = model,
                 raw_output = [], resp_action = None, action_sequence = None,
                 clarifying_questions = [], reasoning = None,
                 resp_metadata = \<lparr>md_provider = provider, md_model = model,
                    tokens_used = None, latency_ms = None, md_temperature = None\<rparr>,
                 resp_error = Some
                   \<lparr>err_type = ''provider_not_available'',
                    err_message = ''Provider '' @ provider @ '' not configured'',
                    err_provider = provider, retry_count = 0,
                    recoverable = False\<rparr>\<rparr>, h)"
  using assms by (simp add: generate_with_retry_def new_LLMResponseMetadata_def)

text \<open>
  Claim C4. When the provider requested by a command has no client, generate-with-retry
  returns at once a failed result of kind \<open>provider_not_available\<close> that is not
  recoverable; the history is unchanged, so no adapter was called. If moreover the
  fallback chain is empty, the router answers the command with an envelope of status
  \<open>error\<close> that carries this result.
\<close>

theorem unconfigured_provider:
  assumes "map_of (clients r) (provider_name (mp_provider p)) = None"
  shows "\<exists>resp.
           generate_with_retry w r (provider_name (mp_provider p)) (mp_model p)
             prompt_text system_prompt temperature mx h = (Inr resp, h) \<and>
           \<not> success resp \<and>
           map_option err_type (resp_error resp) = Some ''provider_not_available'' \<and>
           map_option recoverable (resp_error resp) = Some False \<and>
           (command cmd = AskModel \<and> cmd_params cmd = Some p \<and>
            fallback_chain (config r) = [] \<longrightarrow>
              (\<exists>env. route_command w r cmd system_prompt h = (Inr env, h) \<and>
                     status env = StError \<and> llm_response env = Some resp))"
  using generate_unconfigured [OF assms literal_provider_name]
  by (simp add: route_command_def handle_ask_model_def Let_def build_response_status
        build_response_llm)

theorem unconfigured_provider_witness:
  "map_of (clients (MCPRouter_init sample_world (sample_config\<lparr>fallback_chain := []\<rparr>)))
     (provider_name Gemini) = None \<and>
   (\<exists>env resp.
      route_command sample_world
        (MCPRouter_init sample_world (sample_config\<lparr>fallback_chain := []\<rparr>))
        (ask Gemini ''gemini-1.5-flash'') None [] = (Inr env, []) \<and>
      status env = StError \<and> llm_response env = Some resp \<and>
      map_option err_type (resp_error resp) = Some ''provider_not_available'' \<and>
      map_option recoverable (resp_error resp) = Some False)"
proof -
  let ?r = "MCPRouter_init sample_world (sample_config\<lparr>fallback_chain := []\<rparr>)"
  let ?p = "\<lparr>mp_provider = Gemini, mp_model = ''gemini-1.5-flash'',
             prompt = ''Create a 20mm cube'', mp_temperature = 7 / 10,
             max_tokens = Some 2000\<rparr>"
  have a: "map_of (clients ?r) (provider_name (mp_provider ?p)) = None"
    by (simp add: MCPRouter_init_def sample_config_def)
  have c: "command (ask Gemini ''gemini-1.5-flash'') = AskModel \<and>
           cmd_params (ask Gemini ''gemini-1.5-flash'') = Some ?p \<and>
           fallback_chain (config ?r) = []"
    by (simp add: ask_def MCPRouter_init_def)
  from unconfigured_provider [OF a, of sample_world "''gemini-1.5-flash''" None "7 / 10" None "[]"
         "ask Gemini ''gemini-1.5-flash''"] c
  show ?thesis using a by (auto simp: ask_def)
qed

subsection \<open>Listing the models\<close>

text \<open>
  Claim C8 fails on the code. The loop of \<open>_handle_list_models\<close> does record an empty
  list for a client whose call raises and goes on, but the envelope is then built with
  the metadata provider \<open>system\<close>, which the provider literal excludes: the command ends
  in a validation error for every router, world and history.
\<close>

theorem list_models_raises:
  "command cmd = ListModels \<Longrightarrow>
   fst (route_command w r cmd system_prompt h) =
     Inl (ValidationError ''LLMResponseMetadata.provider'')"
  by (simp add: route_command_def handle_list_models_def new_LLMResponseMetadata_def
        provider_literal_def Let_def split: prod.splits)

theorem list_models_raises_witness:
  "command list_command = ListModels \<and>
   list_models_loop (clients (MCPRouter_init sample_world sample_config)) [] [] =
     ([(''ollama'', []), (''openai'', [''gpt-4o'', ''gpt-4o-mini'']), (''claude'', [])],
      [EvListModels ''ollama'', EvListModels ''openai'', EvListModels ''claude'']) \<and>
   fst (route_command sample_world (MCPRouter_init sample_world sample_config)
          list_command None []) =
     Inl (ValidationError ''LLMResponseMetadata.provider'')"
proof -
  have c: "command list_command = ListModels"
    by (simp add: list_command_def)
  have l: "list_models_loop (clients (MCPRouter_init sample_world sample_config)) [] [] =
     ([(''ollama'', []), (''openai'', [''gpt-4o'', ''gpt-4o-mini'']), (''claude'', [])],
      [EvListModels ''ollama'', EvListModels ''openai'', EvListModels ''claude''])"
    by code_simp
  from list_models_raises [OF c, of sample_world "MCPRouter_init sample_world sample_config"
         None "[]"] c l
  show ?thesis by simp
qed

subsection \<open>Exhausted retries\<close>

lemma retry_trace_counts:
  "length (filter is_generate (retry_trace p req d n)) = n \<and>
   length (filter is_sleep (retry_trace p req d n)) = n - 1"
  by (induction p req d n rule: retry_trace.induct) auto

lemma retry_trace_nonempty: "retry_trace p req d (Suc n) \<noteq> []"
  by (cases n) simp_all

lemma retry_trace_last:
  "0 < n \<Longrightarrow> last (retry_trace p req d n) = EvGenerate p req"
  by (induction p req d n rule: retry_trace.induct) (auto simp: retry_trace_nonempty)

lemma attempt_once_raises:
  "generate cl h req = Inl e \<Longrightarrow> attempt_once w cl req h = Inl e"
  by (simp add: attempt_once_def)

lemma retry_loop_all_raise:
  assumes n: "n = nat (max_retries cfg)"
  shows "k < n \<Longrightarrow>
         (\<And>j. j < n - k \<Longrightarrow>
            isl (generate cl (h @ attempt_history provider req (retry_delay cfg) j) req)) \<Longrightarrow>
         \<exists>e. retry_loop w cfg cl provider req (map int [k ..< n]) last_error h =
                ((None, Some e), h @ retry_trace provider req (retry_delay cfg) (n - k)) \<and>
              generate cl (h @ butlast (retry_trace provider req (retry_delay cfg) (n - k))) req
                = Inl e"
proof (induction "n - k" arbitrary: k last_error h)
  case 0
  then show ?case by simp
next
  case (Suc m)
  have "0 < n - k" using Suc.prems(1) by simp
  from Suc.prems(2) [OF this] obtain e0 where e0: "generate cl h req = Inl e0"
    by (cases "generate cl h req") auto
  have step: "[k ..< n] = k # [Suc k ..< n]"
    using Suc.prems(1) by (simp add: upt_conv_Cons)
  show ?case
  proof (cases m)
    case 0
    with Suc.hyps have nk: "n - k = Suc 0" by simp
    then have "Suc k = n" using Suc.prems(1) by simp
    then have "\<not> int k < max_retries cfg - 1" using n by auto
    then show ?thesis
      using e0 nk step \<open>Suc k = n\<close> by (simp add: attempt_once_raises)
  next
    case (Suc m')
    with Suc.hyps have nk: "n - k = Suc (Suc m')" by simp
    then have lt: "Suc k < n" by simp
    then have cond: "int k < max_retries cfg - 1" using n by auto
    have m: "m = n - Suc k" using Suc.hyps by simp
    let ?h = "h @ [EvGenerate provider req, EvSleep (retry_delay cfg)]"
    have later: "isl (generate cl (?h @ attempt_history provider req (retry_delay cfg) j) req)"
      if "j < n - Suc k" for j
    proof -
      from that have "Suc j < n - k" by simp
      from Suc.prems(2) [OF this] show ?thesis by simp
    qed
    from Suc.hyps(1) [OF m lt later, of "Some e0"]
    obtain e where
      e: "retry_loop w cfg cl provider req (map int [Suc k ..< n]) (Some e0) ?h =
          ((None, Some e), ?h @ retry_trace provider req (retry_delay cfg) (n - Suc k))"
      and g: "generate cl (?h @
                butlast (retry_trace provider req (retry_delay cfg) (n - Suc k))) req = Inl e"
      by blast
    have nk': "n - Suc k = Suc m'" using nk by simp
    have ne: "retry_trace provider req (retry_delay cfg) (Suc m') \<noteq> []"
      by (rule retry_trace_nonempty)
    show ?thesis
      using e g e0 cond step nk nk' ne by (simp add: attempt_once_raises)
  qed
qed

lemma init_clients_literal:
  "map_of (clients (MCPRouter_init w cfg)) provider = Some cl \<Longrightarrow>
     provider \<in> set provider_literal"
  by (auto simp: MCPRouter_init_def provider_literal_def split: if_splits)

text \<open>
  Claim C2. Let the retry count be \<open>N \<ge> 1\<close> and let the \<open>generate\<close> of the configured
  adapter raise at each of the \<open>N\<close> attempts of this run, that is, on this request after
  \<open>k\<close> earlier calls and sleeps, for every \<open>k < N\<close>. Then generate-with-retry appends to
  the history exactly the trace \<open>retry_trace\<close>: \<open>N\<close> calls of the adapter, \<open>N - 1\<close> sleeps
  of the configured delay, one between two consecutive calls, the last event being a
  call. It returns a failed result of kind \<open>generation_failed\<close>, recoverable, with retry
  count \<open>N\<close> and with the message of the exception raised by the last call.
\<close>

theorem retry_exhausted:
  assumes cl: "map_of (clients (MCPRouter_init w cfg)) provider = Some cl"
    and req: "req = \<lparr>req_model = model, req_prompt = prompt_text,
                     req_system_prompt = system_prompt, req_temperature = temperature,
                     req_max_tokens = mx\<rparr>"
    and raises: "\<forall>k < nat (max_retries cfg).
                   isl (generate cl (h @ attempt_history provider req (retry_delay cfg) k) req)"
    and N: "1 \<le> max_retries cfg"
  shows "\<exists>resp e.
           (let tr = retry_trace provider req (retry_delay cfg) (nat (max_retries cfg))
            in generate_with_retry w (MCPRouter_init w cfg) provider model prompt_text
                 system_prompt temperature mx h = (Inr resp, h @ tr) \<and>
               int (length (filter is_generate tr)) = max_retries cfg \<and>
               int (length (filter is_sleep tr)) = max_retries cfg - 1 \<and>
               last tr = EvGenerate provider req \<and>
               generate cl (h @ butlast tr) req = Inl e \<and>
               \<not> success resp \<and>
               resp_error resp =
                 Some \<lparr>err_type = ''generation_failed'', err_message = str_exn e,
                       err_provider = provider, retry_count = max_retries cfg,
                       recoverable = True\<rparr>)"
proof -
  define n where "n = nat (max_retries cfg)"
  define tr where "tr = retry_trace provider req (retry_delay cfg) n"
  have n0: "0 < n" using N by (simp add: n_def)
  have r': "isl (generate cl (h @ attempt_history provider req (retry_delay cfg) j) req)"
    if "j < n - 0" for j
    using raises that by (simp add: n_def)
  from retry_loop_all_raise [OF n_def n0 r', of w None]
  obtain e where
    loop: "retry_loop w cfg cl provider req (py_range (max_retries cfg)) None h =
             ((None, Some e), h @ tr)"
    and g: "generate cl (h @ butlast tr) req = Inl e"
    by (auto simp: py_range_def n_def tr_def)
  have lit: "provider \<in> set provider_literal"
    using cl by (rule init_clients_literal)
  have cfg: "config (MCPRouter_init w cfg) = cfg"
    by (simp add: MCPRouter_init_def)
  have gen: "generate_with_retry w (MCPRouter_init w cfg) provider model prompt_text
               system_prompt temperature mx h =
             (Inr \<lparr>success = False, resp_provider = provider, resp_model = model,
                   raw_output = [], resp_action = None, action_sequence = None,
                   clarifying_questions = [], reasoning = None,
                   resp_metadata = \<lparr>md_provider = provider, md_model = model,
                      tokens_used = None, latency_ms = None, md_temperature = None\<rparr>,
                   resp_error = Some
                     \<lparr>err_type = ''generation_failed'', err_message = str_exn e,
                      err_provider = provider, retry_count = max_retries cfg,
                      recoverable = True\<rparr>\<rparr>, h @ tr)"
    using cl loop lit
    by (simp add: generate_with_retry_def cfg new_LLMResponseMetadata_def req [symmetric])
  have counts: "int (length (filter is_generate tr)) = max_retries cfg"
       "int (length (filter is_sleep tr)) = max_retries cfg - 1"
    using N by (simp_all add: tr_def retry_trace_counts n_def)
  have lst: "last tr = EvGenerate provider req"
    using n0 by (simp add: tr_def retry_trace_last)
  show ?thesis
    unfolding Let_def n_def [symmetric] tr_def [symmetric]
    using gen counts lst g by auto
qed

lemma sample_openai_bad_run:
  "generate_with_retry sample_world (MCPRouter_init sample_world sample_config)
     ''openai'' ''bad'' ''Create a 20mm cube'' None (7 / 10) (Some 2000) [] =
   (Inr openai_bad_response, retry_trace ''openai'' (sample_request ''bad'') 1 3)"
  by code_simp

theorem retry_exhausted_witness:
  "map_of (clients (MCPRouter_init sample_world sample_config)) ''openai'' =
     Some (OpenAIClient sample_world) \<and>
   (\<forall>k. isl (generate (OpenAIClient sample_world)
                ([] @ attempt_history ''openai'' (sample_request ''bad'')
                        (retry_delay sample_config) k)
                (sample_request ''bad''))) \<and>
   \<not> isl (generate (OpenAIClient sample_world) [] (sample_request ''gpt-4o-mini'')) \<and>
   1 \<le> max_retries sample_config \<and>
   generate_with_retry sample_world (MCPRouter_init sample_world sample_config)
     ''openai'' ''bad'' ''Create a 20mm cube'' None (7 / 10) (Some 2000) [] =
   (Inr openai_bad_response, retry_trace ''openai'' (sample_request ''bad'') 1 3) \<and>
   retry_trace ''openai'' (sample_request ''bad'') 1 3 =
     [EvGenerate ''openai'' (sample_request ''bad''), EvSleep 1,
      EvGenerate ''openai'' (sample_request ''bad''), EvSleep 1,
      EvGenerate ''openai'' (sample_request ''bad'')]"
proof -
  have a: "map_of (clients (MCPRouter_init sample_world sample_config)) ''openai'' =
             Some (OpenAIClient sample_world)"
    by (simp add: MCPRouter_init_def sample_config_def)
  have q: "sample_request ''bad'' =
             \<lparr>req_model = ''bad'', req_prompt = ''Create a 20mm cube'',
              req_system_prompt = None, req_temperature = 7 / 10,
              req_max_tokens = Some 2000\<rparr>"
    by (simp add: sample_request_def)
  have b0: "\<forall>k. isl (generate (OpenAIClient sample_world)
                    ([] @ attempt_history ''openai'' (sample_request ''bad'')
                            (retry_delay sample_config) k)
                    (sample_request ''bad''))"
    by (simp add: OpenAIClient_def sample_world_def sample_request_def)
  then have b: "\<forall>k < nat (max_retries sample_config).
             isl (generate (OpenAIClient sample_world)
                    ([] @ attempt_history ''openai'' (sample_request ''bad'')
                            (retry_delay sample_config) k)
                    (sample_request ''bad''))"
    by blast
  have b': "\<not> isl (generate (OpenAIClient sample_world) [] (sample_request ''gpt-4o-mini''))"
    by code_simp
  have c: "1 \<le> max_retries sample_config"
    by (simp add: sample_config_def)
  have t: "retry_trace ''openai'' (sample_request ''bad'') 1 3 =
     [EvGenerate ''openai'' (sample_request ''bad''), EvSleep 1,
      EvGenerate ''openai'' (sample_request ''bad''), EvSleep 1,
      EvGenerate ''openai'' (sample_request ''bad'')]"
    by (simp add: eval_nat_numeral)
  from retry_exhausted [OF a q b c]
  show ?thesis using a b0 b' c t sample_openai_bad_run by simp
qed

subsection \<open>A fallback entry that names an unknown provider\<close>

lemma generate_unknown_provider:
  assumes "map_of (clients r) provider = None" and "provider \<notin> set provider_literal"
  shows "generate_with_retry w r provider model pt sp t mx h =
           (Inl (ValidationError ''LLMResponseMetadata.provider''), h)"
  using assms by (simp add: generate_with_retry_def new_LLMResponseMetadata_def)

lemma sample_ollama_run:
  "generate_with_retry sample_world (MCPRouter_init sample_world cfg)
     ''ollama'' ''llama3'' ''Create a 20mm cube'' None (7 / 10) (Some 2000) [] =
   (Inr ollama_down_response, ollama_trace)"
  if "ollama_url cfg \<noteq> []" "max_retries cfg = 3" "retry_delay cfg = 1"
  using that
  by (simp add: generate_with_retry_def MCPRouter_init_def py_range_def
        eval_nat_numeral upt_rec attempt_once_def OllamaClient_def sample_world_def
        OllamaClient_generate_rest_def OllamaClient_generate_cli_def
        new_LLMResponseMetadata_def provider_literal_def ollama_down_response_def
        ollama_trace_def sample_request_def)

text \<open>
  Claim C1 fails on the code. When the primary attempt has failed and the first entry of
  the fallback chain names a provider that is neither configured nor one of the four
  names of the provider literal, the not-configured branch of generate-with-retry raises
  pydantic's validation error while it builds the metadata of the failed result; nothing
  catches it, and the router's caller gets the exception instead of an envelope.
\<close>

theorem unknown_fallback_provider_raises:
  assumes "command cmd = AskModel" and "cmd_params cmd = Some p"
    and "generate_with_retry w r (provider_name (mp_provider p)) (mp_model p)
           (context_prompt (cmd_context cmd) (prompt p)) system_prompt
           (mp_temperature p) (max_tokens p) h = (Inr primary, h')"
    and "\<not> success primary"
    and "fallback_chain (config r) = entry # rest"
    and "parse_model_string entry = Inr (fallback_provider, fallback_model)"
    and "map_of (clients r) fallback_provider = None"
    and "fallback_provider \<notin> set provider_literal"
  shows "route_command w r cmd system_prompt h =
           (Inl (ValidationError ''LLMResponseMetadata.provider''), h')"
  using assms
  by (simp add: route_command_def handle_ask_model_def Let_def generate_unknown_provider)

theorem unknown_fallback_provider_raises_witness:
  "route_command sample_world
     (MCPRouter_init sample_world (sample_config\<lparr>fallback_chain := [''mistral:7b'']\<rparr>))
     (ask Ollama ''llama3'') None [] =
   (Inl (ValidationError ''LLMResponseMetadata.provider''), ollama_trace)"
proof -
  let ?cfg = "sample_config\<lparr>fallback_chain := [''mistral:7b'']\<rparr>"
  let ?r = "MCPRouter_init sample_world ?cfg"
  let ?p = "\<lparr>mp_provider = Ollama, mp_model = ''llama3'',
             prompt = ''Create a 20mm cube'', mp_temperature = 7 / 10,
             max_tokens = Some 2000\<rparr>"
  have c: "command (ask Ollama ''llama3'') = AskModel"
       "cmd_params (ask Ollama ''llama3'') = Some ?p"
    by (simp_all add: ask_def)
  have g: "generate_with_retry sample_world ?r (provider_name (mp_provider ?p)) (mp_model ?p)
             (context_prompt (cmd_context (ask Ollama ''llama3'')) (prompt ?p)) None
             (mp_temperature ?p) (max_tokens ?p) [] = (Inr ollama_down_response, ollama_trace)"
    using sample_ollama_run [of ?cfg]
    by (simp add: sample_config_def ask_def context_prompt_def)
  have f: "\<not> success ollama_down_response"
    by (simp add: ollama_down_response_def)
  have ch: "fallback_chain (config ?r) = ''mistral:7b'' # []"
    by (simp add: MCPRouter_init_def)
  have pm: "parse_model_string ''mistral:7b'' = Inr (''mistral'', ''7b'')"
    by code_simp
  have nc: "map_of (clients ?r) ''mistral'' = None"
    by (simp add: MCPRouter_init_def sample_config_def)
  have nl: "''mistral'' \<notin> set provider_literal"
    by (simp add: provider_literal_def)
  show ?thesis
    by (rule unknown_fallback_provider_raises [OF c g f ch pm nc nl])
qed

subsection \<open>Walking the fallback chain\<close>

lemma fallback_loop_past_failures:
  assumes "entries_fail w r pre pt sp t mx h h1"
    and "parse_model_string entry = Inr (fp, fm)"
    and "generate_with_retry w r fp fm pt sp t mx h1 = (Inr res, h2)"
  shows "fallback_loop w r (pre @ entry # post) pt sp t mx cur h =
           (if success res then (Inr res, h2)
            else fallback_loop w r post pt sp t mx res h2)"
  using assms
proof (induction pre arbitrary: cur h)
  case Nil
  then show ?case by simp
next
  case (Cons e es)
  then show ?case
    by (auto split: sum.splits prod.splits)
qed

lemma init_client_stamps:
  assumes "map_of (clients (MCPRouter_init w cfg)) provider = Some cl"
    and "generate cl h req = Inr result"
  shows "gr_provider result = provider"
  using assms
  by (auto simp: MCPRouter_init_def OllamaClient_def OpenAIClient_def GeminiClient_def
        ClaudeClient_def OllamaClient_generate_rest_def OllamaClient_generate_cli_def
        split: if_splits sum.splits)

lemma attempt_once_provider:
  "attempt_once w cl req h = Inr resp \<Longrightarrow>
     \<exists>result. generate cl h req = Inr result \<and> resp_provider resp = gr_provider result"
  by (auto simp: attempt_once_def split: sum.splits prod.splits option.splits)

lemma retry_loop_provider:
  assumes "map_of (clients (MCPRouter_init w cfg)) provider = Some cl"
  shows "retry_loop w cfg' cl provider req attempts last_error h = ((Some resp, e), h') \<Longrightarrow>
           resp_provider resp = provider"
proof (induction attempts arbitrary: last_error h)
  case Nil
  then show ?case by simp
next
  case (Cons a as)
  show ?case
  proof (cases "attempt_once w cl req h")
    case (Inl x)
    with Cons show ?thesis by (simp split: if_splits)
  next
    case (Inr resp')
    with Cons.prems have "resp' = resp" by simp
    with Inr attempt_once_provider [of w cl req h resp]
    obtain result where "generate cl h req = Inr result"
      "resp_provider resp = gr_provider result" by auto
    with init_client_stamps [OF assms] show ?thesis by simp
  qed
qed

lemma generate_with_retry_provider:
  assumes "generate_with_retry w (MCPRouter_init w cfg) provider model pt sp t mx h =
             (Inr resp, h')"
  shows "resp_provider resp = provider"
proof (cases "map_of (clients (MCPRouter_init w cfg)) provider")
  case None
  with assms show ?thesis
    by (auto simp: generate_with_retry_def split: sum.splits)
next
  case (Some cl)
  with assms retry_loop_provider [OF Some] show ?thesis
    by (auto simp: generate_with_retry_def split: sum.splits prod.splits option.splits)
qed

text \<open>
  The walk over the chain where no entry raises. After a failed primary attempt, let the
  entries before \<open>entry\<close> all fail and let \<open>entry\<close> return the result \<open>res\<close>. If \<open>res\<close> is a
  success, or \<open>entry\<close> is the last of the chain, the router returns the envelope of
  \<open>res\<close> with the history as \<open>entry\<close> left it: no later entry is tried. Every attempt
  gets the prompt, temperature and token limit of the primary attempt, and \<open>res\<close> reports
  the provider that the entry names.
\<close>

lemma fallback_in_order:
  assumes "command cmd = AskModel" and "cmd_params cmd = Some p"
    and "pt = context_prompt (cmd_context cmd) (prompt p)"
    and "generate_with_retry w (MCPRouter_init w cfg) (provider_name (mp_provider p))
           (mp_model p) pt system_prompt (mp_temperature p) (max_tokens p) h =
         (Inr primary, h0)"
    and "\<not> success primary"
    and "fallback_chain cfg = pre @ entry # post"
    and "entries_fail w (MCPRouter_init w cfg) pre pt system_prompt (mp_temperature p)
           (max_tokens p) h0 h1"
    and "parse_model_string entry = Inr (fp, fm)"
    and "generate_with_retry w (MCPRouter_init w cfg) fp fm pt system_prompt
           (mp_temperature p) (max_tokens p) h1 = (Inr res, h2)"
    and "success res \<or> post = []"
  shows "route_command w (MCPRouter_init w cfg) cmd system_prompt h =
           (Inr (build_response res), h2) \<and>
         llm_response (build_response res) = Some res \<and>
         resp_provider res = fp"
proof -
  have cfg: "fallback_chain (config (MCPRouter_init w cfg)) = pre @ entry # post"
    using assms(6) by (simp add: MCPRouter_init_def)
  have loop: "fallback_loop w (MCPRouter_init w cfg) (pre @ entry # post) pt system_prompt
                (mp_temperature p) (max_tokens p) primary h0 = (Inr res, h2)"
    using fallback_loop_past_failures [OF assms(7,8,9)] assms(10) by auto
  have "route_command w (MCPRouter_init w cfg) cmd system_prompt h =
          (Inr (build_response res), h2)"
    using assms(1-5) cfg loop
    by (simp add: route_command_def handle_ask_model_def Let_def)
  moreover have "resp_provider res = fp"
    using assms(9) by (rule generate_with_retry_provider)
  ultimately show ?thesis by (simp add: build_response_llm)
qed

text \<open>
  Claim C3 fails on the code at a chain with an entry for an unknown provider. The world
  is one where Ollama is down and OpenAI answers. With the chain
  \<open>[openai:gpt-4o-mini]\<close> the router falls back to OpenAI and returns its result. With
  the chain \<open>[mistral:7b, openai:gpt-4o-mini]\<close> the walk ends in the validation error
  at the first entry: the OpenAI entry is never tried (the history holds the three Ollama
  calls only) and no envelope is returned.
\<close>

theorem fallback_walk_aborted:
  "route_command sample_world
     (MCPRouter_init sample_world
        (sample_config\<lparr>fallback_chain := [''openai:gpt-4o-mini'']\<rparr>))
     (ask Ollama ''llama3'') None [] =
   (Inr (build_response openai_box_response),
    ollama_trace @ [EvGenerate ''openai'' (sample_request ''gpt-4o-mini'')]) \<and>
   route_command sample_world
     (MCPRouter_init sample_world
        (sample_config\<lparr>fallback_chain := [''mistral:7b'', ''openai:gpt-4o-mini'']\<rparr>))
     (ask Ollama ''llama3'') None [] =
   (Inl (ValidationError ''LLMResponseMetadata.provider''), ollama_trace)"
  by code_simp

subsection \<open>Payload extraction\<close>

lemma py_find_takeWhile:
  "py_find c xs =
     (if c \<in> set xs then int (length (takeWhile (\<lambda>x. x \<noteq> c) xs)) else -1)"
  by (induction xs) (auto simp: Let_def)

lemma py_rfind_takeWhile:
  "py_rfind c xs =
     (if c \<in> set xs
      then int (length xs) - 1 - int (length (takeWhile (\<lambda>x. x \<noteq> c) (rev xs)))
      else -1)"
  by (simp add: py_rfind_def py_find_takeWhile Let_def)

lemma dropWhile_take:
  "dropWhile P (take b xs) =
     take (b - length (takeWhile P xs)) (drop (length (takeWhile P xs)) xs)"
proof (induction xs arbitrary: b)
  case Nil
  then show ?case by simp
next
  case (Cons x xs)
  then show ?case by (cases b) auto
qed

lemma rev_dropWhile_rev:
  "rev (dropWhile P (rev xs)) = take (length xs - length (takeWhile P (rev xs))) xs"
proof -
  have "rev xs = takeWhile P (rev xs) @ dropWhile P (rev xs)" by simp
  then have "xs = rev (dropWhile P (rev xs)) @ rev (takeWhile P (rev xs))"
    by (metis rev_append rev_rev_ident)
  then have "take (length (rev (dropWhile P (rev xs)))) xs = rev (dropWhile P (rev xs))"
    by (metis append_eq_conv_conj)
  moreover have "length (rev (dropWhile P (rev xs))) =
                   length xs - length (takeWhile P (rev xs))"
    by (metis length_rev length_takeWhile_le diff_diff_cancel
          takeWhile_dropWhile_id length_append add_diff_cancel_left')
  ultimately show ?thesis by simp
qed

lemma takeWhile_stops:
  "c \<in> set xs \<Longrightarrow> length (takeWhile (\<lambda>x. x \<noteq> c) xs) < length xs"
  by (induction xs) auto

lemma slice_is_brace_span:
  assumes "CHR ''{'' \<in> set text" and "CHR ''}'' \<in> set text"
  shows "py_slice text (py_find CHR ''{'' text) (py_rfind CHR ''}'' text + 1) =
           dropWhile (\<lambda>c. c \<noteq> CHR ''{'')
             (rev (dropWhile (\<lambda>c. c \<noteq> CHR ''}'') (rev text)))"
proof -
  have lt: "length (takeWhile (\<lambda>x. x \<noteq> CHR ''}'') (rev text)) < length text"
    using takeWhile_stops [of "CHR ''}''" "rev text"] assms(2) by simp
  show ?thesis
    using assms lt
    by (simp add: py_slice_def py_find_takeWhile py_rfind_takeWhile rev_dropWhile_rev
          dropWhile_take nat_diff_distrib' of_nat_diff)
qed

lemma py_find_found: "(py_find c xs \<noteq> -1) = (c \<in> set xs)"
  by (simp add: py_find_takeWhile)

lemma py_rfind_found: "(py_rfind c xs \<noteq> -1) = (c \<in> set xs)"
  using takeWhile_stops [of c "rev xs"] by (auto simp: py_rfind_takeWhile)

lemma span_missing:
  "\<not> (py_find CHR ''{'' text \<noteq> -1 \<and> py_rfind CHR ''}'' text \<noteq> -1) \<Longrightarrow>
     brace_span text = None"
  unfolding py_find_found py_rfind_found by (simp add: brace_span_def)

lemma span_found:
  "py_find CHR ''{'' text \<noteq> -1 \<and> py_rfind CHR ''}'' text \<noteq> -1 \<Longrightarrow>
     brace_span text =
       Some (py_slice text (py_find CHR ''{'' text) (py_rfind CHR ''}'' text + 1))"
  unfolding py_find_found py_rfind_found
  by (simp add: brace_span_def slice_is_brace_span)

lemma OpenAIClient_two_stage:
  "OpenAIClient_parse_json loads (Some text) = two_stage_parse loads text"
proof (cases "py_find CHR ''{'' text \<noteq> -1 \<and> py_rfind CHR ''}'' text \<noteq> -1")
  case True
  then have c: "(py_find CHR ''{'' text \<noteq> -1 \<and> py_rfind CHR ''}'' text \<noteq> -1) = True"
    by simp
  show ?thesis
    by (auto simp: OpenAIClient_parse_json_def two_stage_parse_def Let_def c
          span_found [OF True] split: sum.splits)
next
  case False
  then have c: "(py_find CHR ''{'' text \<noteq> -1 \<and> py_rfind CHR ''}'' text \<noteq> -1) = False"
    by simp
  show ?thesis
    by (auto simp: OpenAIClient_parse_json_def two_stage_parse_def Let_def c
          span_missing [OF False] split: sum.splits)
qed

lemma GeminiClient_two_stage:
  "GeminiClient_parse_json loads (Some text) = two_stage_parse loads text"
  by (simp add: GeminiClient_parse_json_def OpenAIClient_two_stage [symmetric]
        OpenAIClient_parse_json_def)

lemma ClaudeClient_two_stage:
  "ClaudeClient_parse_json loads (Some text) = two_stage_parse loads text"
  by (simp add: ClaudeClient_parse_json_def OpenAIClient_two_stage [symmetric]
        OpenAIClient_parse_json_def)

lemma OllamaClient_brace_first:
  "OllamaClient_parse_json loads (Some text) = brace_first_parse loads text"
proof (cases "py_find CHR ''{'' text \<noteq> -1 \<and> py_rfind CHR ''}'' text \<noteq> -1")
  case True
  then have c: "(py_find CHR ''{'' text \<noteq> -1 \<and> py_rfind CHR ''}'' text \<noteq> -1) = True"
    by simp
  show ?thesis
    by (auto simp: OllamaClient_parse_json_def brace_first_parse_def Let_def c
          span_found [OF True] split: sum.splits)
next
  case False
  then have c: "(py_find CHR ''{'' text \<noteq> -1 \<and> py_rfind CHR ''}'' text \<noteq> -1) = False"
    by simp
  show ?thesis
    by (auto simp: OllamaClient_parse_json_def brace_first_parse_def Let_def c
          span_missing [OF False] split: sum.splits)
qed

text \<open>
  Two behaviours of the code that the amended claim below neither promises nor denies.
  A text without braces that is itself JSON, such as \<open>42\<close>, gives that value as the
  payload, though the docstring of \<^verbatim>\<open>_parse_json\<close> announces a dict or \<^verbatim>\<open>None\<close>.
  And an exception of \<^verbatim>\<open>json.loads\<close> other than \<^verbatim>\<open>JSONDecodeError\<close> is not caught: on
  a thousand opening brackets, where \<^verbatim>\<open>json.loads\<close> raises \<^verbatim>\<open>RecursionError\<close>, the
  extraction raises it too.
\<close>

lemma brace_free_number_payload:
  "CHR ''{'' \<notin> set ''42'' \<and> CHR ''}'' \<notin> set ''42'' \<and>
   OpenAIClient_parse_json sample_loads (Some ''42'') = Inr (JInt 42) \<and>
   OllamaClient_parse_json sample_loads (Some ''42'') = Inr (JInt 42)"
  by code_simp

lemma deep_loads_raises: "deep_loads (replicate 1000 CHR ''['') = Inl RecursionError"
  by (simp add: deep_loads_def)

lemma parse_json_recursion_error:
  "OpenAIClient_parse_json deep_loads (Some (replicate 1000 CHR ''['')) = Inl RecursionError \<and>
   OllamaClient_parse_json deep_loads (Some (replicate 1000 CHR ''['')) = Inl RecursionError"
proof -
  have "brace_span (replicate 1000 CHR ''['') = None"
    by (simp add: brace_span_def)
  then show ?thesis
    by (simp add: OpenAIClient_two_stage OllamaClient_brace_first two_stage_parse_def
          brace_first_parse_def deep_loads_raises)
qed

text \<open>
  Claim C5 as stated fails on the Ollama adapter, which tries the brace substring before
  the whole text: on a text that is a JSON array around one object it extracts the
  object, where the two-stage parse of the claim gives the array.
\<close>

theorem payload_extraction_counterexample:
  "OllamaClient_parse_json sample_loads (Some (''['' @ box_reply @ '']'')) \<noteq>
     two_stage_parse sample_loads (''['' @ box_reply @ '']'')"
  by code_simp

text \<open>
  Claim C5 as amended, for every \<^verbatim>\<open>json.loads\<close> and every text. The OpenAI, Gemini and
  Claude adapters do the two-stage parse of the specification: the whole text first, the
  brace substring only when the whole text raises the decode error. The Ollama adapter
  makes the same two attempts in the other order. In all four, when every attempt made
  raises the decode error, the payload is absent and nothing is raised; in particular
  for a text without an opening or without a closing brace whose parse as a whole raises
  the decode error.
\<close>

theorem payload_extraction:
  "OpenAIClient_parse_json loads (Some text) = two_stage_parse loads text \<and>
   GeminiClient_parse_json loads (Some text) = two_stage_parse loads text \<and>
   ClaudeClient_parse_json loads (Some text) = two_stage_parse loads text \<and>
   OllamaClient_parse_json loads (Some text) = brace_first_parse loads text \<and>
   (loads text = Inl JSONDecodeError \<and>
    (\<forall>sub. brace_span text = Some sub \<longrightarrow> loads sub = Inl JSONDecodeError) \<longrightarrow>
      two_stage_parse loads text = Inr JNull \<and> brace_first_parse loads text = Inr JNull) \<and>
   (loads text = Inl JSONDecodeError \<and> (CHR ''{'' \<notin> set text \<or> CHR ''}'' \<notin> set text) \<longrightarrow>
      two_stage_parse loads text = Inr JNull \<and> brace_first_parse loads text = Inr JNull)"
  by (auto simp: OpenAIClient_two_stage GeminiClient_two_stage ClaudeClient_two_stage
        OllamaClient_brace_first two_stage_parse_def brace_first_parse_def brace_span_def
        split: option.splits)

theorem payload_extraction_witness:
  "sample_loads ''no json here'' = Inl JSONDecodeError \<and>
   CHR ''{'' \<notin> set ''no json here'' \<and>
   OpenAIClient_parse_json sample_loads (Some ''no json here'') = Inr JNull \<and>
   OllamaClient_parse_json sample_loads (Some ''no json here'') = Inr JNull \<and>
   OpenAIClient_parse_json sample_loads (Some (''prefix '' @ box_reply @ '' suffix'')) =
     Inr (JObj [(''action'', JStr ''create_box''), (''params'', JObj [(''width'', JInt 20)])]) \<and>
   OllamaClient_parse_json sample_loads (Some (''prefix '' @ box_reply @ '' suffix'')) =
     Inr (JObj [(''action'', JStr ''create_box''), (''params'', JObj [(''width'', JInt 20)])])"
proof -
  have a: "sample_loads ''no json here'' = Inl JSONDecodeError" by code_simp
  have b: "CHR ''{'' \<notin> set ''no json here''" by simp
  have c: "sample_loads (''prefix '' @ box_reply @ '' suffix'') = Inl JSONDecodeError"
    by code_simp
  have d: "brace_span (''prefix '' @ box_reply @ '' suffix'') = Some box_reply"
    by code_simp
  have e: "sample_loads box_reply =
     Inr (JObj [(''action'', JStr ''create_box''), (''params'', JObj [(''width'', JInt 20)])])"
    by code_simp
  from payload_extraction [of sample_loads "''no json here''"]
       payload_extraction [of sample_loads "''prefix '' @ box_reply @ '' suffix''"]
  show ?thesis
    using a b c d e by (simp add: two_stage_parse_def brace_first_parse_def)
qed

subsection \<open>Round trip of an action sequence\<close>








end
